theory Spec2Isabelle
  imports Main "HOL-Library.Word"
begin

section \<open>Wide strings\<close>

text \<open>
  The program works on \<^verbatim>\<open>std::wstring\<close>: sequences of 16-bit code units
  (\<^verbatim>\<open>wchar_t\<close> on the target platform). \<open>L s\<close> is the wide literal
  \<^verbatim>\<open>L"s"\<close> of an ASCII string.
\<close>

type_synonym wchar = "16 word"
type_synonym wstring = "wchar list"

definition L :: "string \<Rightarrow> wstring" where
  "L s = map of_char s"

text \<open>
  \<^verbatim>\<open>::towlower\<close> in the "C" locale (the program never sets another one):
  the code units of \<^verbatim>\<open>A\<close>..\<^verbatim>\<open>Z\<close> move to \<^verbatim>\<open>a\<close>..\<^verbatim>\<open>z\<close>,
  every other code unit is left as it is.
\<close>

definition towlower :: "wchar \<Rightarrow> wchar" where
  "towlower c = (if 0x41 \<le> c \<and> c \<le> 0x5A then c + 0x20 else c)"

text \<open>\<^verbatim>\<open>std::wstring::ends_with\<close>.\<close>

definition ends_with :: "wstring \<Rightarrow> wstring \<Rightarrow> bool" where
  "ends_with s sfx = (length sfx \<le> length s \<and> drop (length s - length sfx) s = sfx)"

text \<open>
  Two code units that are the same letter of \<^verbatim>\<open>A\<close>..\<^verbatim>\<open>Z\<close> up to case (or
  equal), and two strings of the same length that agree up to the case of their
  letters. Stated without \<open>towlower\<close>.
\<close>

definition same_letter :: "wchar \<Rightarrow> wchar \<Rightarrow> bool" where
  "same_letter c d =
     (c = d \<or> (0x41 \<le> c \<and> c \<le> 0x5A \<and> d = c + 0x20)
            \<or> (0x41 \<le> d \<and> d \<le> 0x5A \<and> c = d + 0x20))"

definition same_up_to_case :: "wstring \<Rightarrow> wstring \<Rightarrow> bool" where
  "same_up_to_case s t = list_all2 same_letter s t"

section \<open>Persisted update state\<close>

text \<open>
  Modelled from the spec: the declaration of \<^verbatim>\<open>UpdateState\<close>
  (\<^verbatim>\<open>common/updating/updateState.h\<close>) is not among the sources. The spec gives a
  status out of four, the downloaded installer's filename and the last-checked
  timestamp; a fresh record (\<^verbatim>\<open>state = {}\<close>) has status \<open>upToDate\<close>, no
  timestamp and an empty filename. The source uses the filename as a path component,
  so it is a string, cleared by making it empty.
\<close>

datatype State = upToDate | errorDownloading | readyToDownload | readyToInstall

record UpdateState =
  state :: State
  githubUpdateLastCheckedDate :: "nat option"
  downloadedInstallerFilename :: wstring

definition UpdateState_default :: UpdateState where
  "UpdateState_default =
     \<lparr>state = upToDate, githubUpdateLastCheckedDate = None, downloadedInstallerFilename = []\<rparr>"

text \<open>The spec's invariant: the filename is populated exactly in status \<open>readyToInstall\<close>.\<close>

definition filename_invariant :: "UpdateState \<Rightarrow> bool" where
  "filename_invariant s = ((downloadedInstallerFilename s \<noteq> []) = (state s = readyToInstall))"

section \<open>The world the program acts on\<close>

datatype see_mask =
  SEE_MASK_FLAG_NO_UI | SEE_MASK_NOASYNC | SEE_MASK_NOCLOSEPROCESS | SEE_MASK_NO_CONSOLE

text \<open>One constructor for each message the source logs through \<^verbatim>\<open>Logger::error\<close>.\<close>

datatype log_message =
    Couldnt_obtain_github_version_info wstring
  | No_update_was_available
  | Couldnt_download_new_installer
  | Couldnt_find_downloaded_installer wstring
  | Update_state_was_invalid

text \<open>
  The user-interface level of the package installer. It belongs to the process:
  \<^verbatim>\<open>MsiSetInternalUI\<close> sets it, and an installation runs without any user
  interface only at \<open>INSTALLUILEVEL_NONE\<close>.
\<close>

datatype INSTALLUILEVEL =
  INSTALLUILEVEL_DEFAULT | INSTALLUILEVEL_NONE | INSTALLUILEVEL_BASIC
  | INSTALLUILEVEL_REDUCED | INSTALLUILEVEL_FULL

datatype event =
    LoggerInit
  | LoggerError log_message
  | VersionInfoQuery
  | Download wstring
  | CopyFile wstring wstring
  | WindowMessage nat "32 word"
  | ProcessLaunch wstring wstring "see_mask list"
  | MsiInstall wstring "wstring option" INSTALLUILEVEL
  | ProcessWait wstring
  | FileRemove wstring
  | StateWrite UpdateState

text \<open>
  The world: the persisted record, the regular files, the files whose removal fails
  (open elsewhere, protected), the clock \<^verbatim>\<open>timeutil::now()\<close> reads, and the trace
  of the effects performed so far, oldest first. File names are matched without
  regard to case on the target platform, so both file tables are keyed by \<open>fs_key\<close>.
\<close>

record World =
  persisted :: UpdateState
  files :: "wstring set"
  undeletable :: "wstring set"
  clock :: nat
  events :: "event list"

definition fs_key :: "wstring \<Rightarrow> wstring" where
  "fs_key p = map towlower p"

definition emit :: "event \<Rightarrow> World \<Rightarrow> World" where
  "emit e w = w\<lparr>events := events w @ [e]\<rparr>"

definition new_events :: "World \<Rightarrow> World \<Rightarrow> event list" where
  "new_events w w' = drop (length (events w)) (events w')"

datatype github_version_info = new_version_download_info wstring | version_up_to_date

text \<open>
  What the program is given from outside its source file: the literal tokens of
  namespace \<^verbatim>\<open>cmdArg\<close> and the tray window class (declared in headers that are
  not among the sources), the well-known paths, \<^verbatim>\<open>fs::path::operator/\<close>, and the
  results of the external calls (release metadata, download, window lookup, launch
  requests, the package installer, the exit code the child process leaves; \<open>None\<close>
  when the child never exits). \<open>msi_ui_level\<close> is the installer's
  user-interface level in the process: the source never calls
  \<^verbatim>\<open>MsiSetInternalUI\<close>, so it is the level the process has from outside.
\<close>

record Env =
  UPDATE_NOW_LAUNCH_STAGE1 :: wstring
  UPDATE_NOW_LAUNCH_STAGE2 :: wstring
  UPDATE_STAGE2_RESTART_PT :: wstring
  UPDATE_STAGE2_DONT_START_PT :: wstring
  UPDATE_REPORT_SUCCESS :: wstring
  pt_tray_icon_window_class :: wstring
  get_module_filename :: wstring
  get_module_folderpath :: wstring
  get_pending_updates_path :: wstring
  temp_directory_path :: wstring
  path_append :: "wstring \<Rightarrow> wstring \<Rightarrow> wstring"
  copy_file_error :: "wstring \<Rightarrow> wstring \<Rightarrow> bool"
  github_version_info_result :: "wstring + github_version_info"
  download_result :: "wstring \<Rightarrow> wstring option"
  window_of_class :: "wstring \<Rightarrow> nat option"
  launch_accepted :: "wstring \<Rightarrow> wstring \<Rightarrow> see_mask list \<Rightarrow> bool"
  msi_return_code :: "wstring \<Rightarrow> 32 word"
  child_exit_code :: "wstring \<Rightarrow> 32 word option"
  msi_ui_level :: INSTALLUILEVEL

definition ERROR_SUCCESS :: "32 word" where
  "ERROR_SUCCESS = 0"

definition WM_CLOSE :: "32 word" where
  "WM_CLOSE = 0x0010"

subsection \<open>The external operations\<close>

definition UpdateState_read :: "World \<Rightarrow> UpdateState" where
  "UpdateState_read w = persisted w"

text \<open>\<^verbatim>\<open>UpdateState::store\<close>: the transform is applied to the current record.\<close>

definition UpdateState_store :: "(World \<Rightarrow> UpdateState \<Rightarrow> UpdateState) \<Rightarrow> World \<Rightarrow> World" where
  "UpdateState_store f w =
     (let s = f w (persisted w) in emit (StateWrite s) (w\<lparr>persisted := s\<rparr>))"

definition timeutil_now :: "World \<Rightarrow> nat" where
  "timeutil_now w = clock w"

definition is_regular_file :: "World \<Rightarrow> wstring \<Rightarrow> bool" where
  "is_regular_file w p = (fs_key p \<in> files w)"

text \<open>
  \<^verbatim>\<open>fs::remove(p, ec)\<close>: the file is gone unless the removal fails; the first
  component is whether \<^verbatim>\<open>ec\<close> reports an error.
\<close>

definition fs_remove :: "wstring \<Rightarrow> World \<Rightarrow> bool \<times> World" where
  "fs_remove p w =
     (let w1 = emit (FileRemove p) w in
      if fs_key p \<in> undeletable w1 then (True, w1)
      else (False, w1\<lparr>files := files w1 - {fs_key p}\<rparr>))"

definition get_github_version_info_async :: "Env \<Rightarrow> World \<Rightarrow> (wstring + github_version_info) \<times> World" where
  "get_github_version_info_async env w = (github_version_info_result env, emit VersionInfoQuery w)"

definition download_new_version :: "Env \<Rightarrow> wstring \<Rightarrow> World \<Rightarrow> wstring option \<times> World" where
  "download_new_version env info w =
     (let w1 = emit (Download info) w in
      case download_result env info of
        None \<Rightarrow> (None, w1)
      | Some p \<Rightarrow> (Some p, w1\<lparr>files := insert (fs_key p) (files w1)\<rparr>))"

definition ShellExecuteExW :: "Env \<Rightarrow> see_mask list \<Rightarrow> wstring \<Rightarrow> wstring \<Rightarrow> World \<Rightarrow> bool \<times> World" where
  "ShellExecuteExW env fMask lpFile lpParameters w =
     (launch_accepted env lpFile lpParameters fMask, emit (ProcessLaunch lpFile lpParameters fMask) w)"

definition MsiInstallProductW ::
  "Env \<Rightarrow> wstring \<Rightarrow> wstring option \<Rightarrow> World \<Rightarrow> 32 word \<times> World" where
  "MsiInstallProductW env szPackagePath szCommandLine w =
     (msi_return_code env szPackagePath,
      emit (MsiInstall szPackagePath szCommandLine (msi_ui_level env)) w)"

text \<open>
  \<^verbatim>\<open>WaitForSingleObject(hProcess, INFINITE)\<close> followed by
  \<^verbatim>\<open>GetExitCodeProcess\<close>: \<open>None\<close> when the wait never ends.
\<close>

definition wait_for_exit_code :: "Env \<Rightarrow> wstring \<Rightarrow> World \<Rightarrow> 32 word option \<times> World" where
  "wait_for_exit_code env p w = (child_exit_code env p, emit (ProcessWait p) w)"

section \<open>The program\<close>

definition CopySelfToTempDir :: "Env \<Rightarrow> World \<Rightarrow> wstring option \<times> World" where
  "CopySelfToTempDir env w =
     (let dst_path = path_append env (temp_directory_path env) (L ''PowerToys.Update.exe'');
          w1 = emit (CopyFile (get_module_filename env) dst_path) w
      in if copy_file_error env (get_module_filename env) dst_path then (None, w1)
         else (Some dst_path, w1\<lparr>files := insert (fs_key dst_path) (files w1)\<rparr>))"

definition ObtainInstallerPath :: "Env \<Rightarrow> World \<Rightarrow> wstring option \<times> World" where
  "ObtainInstallerPath env w =
     (let st = UpdateState_read w in
      if state st = readyToDownload \<or> state st = errorDownloading then
        (case get_github_version_info_async env w of
           (Inl err, w1) \<Rightarrow>
             (None, emit (LoggerError (Couldnt_obtain_github_version_info err)) w1)
         | (Inr version_up_to_date, w1) \<Rightarrow>
             (None, emit (LoggerError No_update_was_available) w1)
         | (Inr (new_version_download_info info), w1) \<Rightarrow>
             (case download_new_version env info w1 of
                (None, w2) \<Rightarrow> (None, emit (LoggerError Couldnt_download_new_installer) w2)
              | (Some downloaded_installer, w2) \<Rightarrow> (Some downloaded_installer, w2)))
      else if state st = readyToInstall then
        (let installer = path_append env (get_pending_updates_path env) (downloadedInstallerFilename st)
         in if is_regular_file w installer then (Some installer, w)
            else (None, emit (LoggerError (Couldnt_find_downloaded_installer installer)) w))
      else (None, emit (LoggerError Update_state_was_invalid) w))"

text \<open>The argument string Stage 1 hands to Stage 2 (source lines 118 to 124).\<close>

definition stage2_arguments :: "Env \<Rightarrow> wstring \<Rightarrow> bool \<Rightarrow> wstring" where
  "stage2_arguments env installer launch_powertoys =
     UPDATE_NOW_LAUNCH_STAGE2 env @ [0x20, 0x22] @ installer @ [0x22, 0x20, 0x22]
       @ get_module_folderpath env @ [0x22, 0x20]
       @ (if launch_powertoys then UPDATE_STAGE2_RESTART_PT env
          else UPDATE_STAGE2_DONT_START_PT env)"

definition InstallNewVersionStage1 :: "Env \<Rightarrow> World \<Rightarrow> bool \<times> World" where
  "InstallNewVersionStage1 env w =
     (case ObtainInstallerPath env w of
        (None, w1) \<Rightarrow> (False, w1)
      | (Some installer, w1) \<Rightarrow>
          (case CopySelfToTempDir env w1 of
             (Some copy_in_temp, w2) \<Rightarrow>
               (let pt_main_window = window_of_class env (pt_tray_icon_window_class env);
                    launch_powertoys = (pt_main_window \<noteq> None);
                    w3 = (case pt_main_window of
                            Some h \<Rightarrow> emit (WindowMessage h WM_CLOSE) w2
                          | None \<Rightarrow> w2);
                    arguments = stage2_arguments env installer launch_powertoys
                in ShellExecuteExW env [SEE_MASK_FLAG_NO_UI, SEE_MASK_NOASYNC]
                     copy_in_temp arguments w3)
           | (None, w2) \<Rightarrow> (False, w2)))"

text \<open>The three transforms the source passes to \<^verbatim>\<open>UpdateState::store\<close>.\<close>

definition stage2_success_update :: "World \<Rightarrow> UpdateState \<Rightarrow> UpdateState" where
  "stage2_success_update w s =
     UpdateState_default\<lparr>githubUpdateLastCheckedDate := Some (timeutil_now w), state := upToDate\<rparr>"

definition stage1_failure_update :: "World \<Rightarrow> UpdateState \<Rightarrow> UpdateState" where
  "stage1_failure_update w s =
     s\<lparr>downloadedInstallerFilename := [],
       githubUpdateLastCheckedDate := Some (timeutil_now w),
       state := errorDownloading\<rparr>"

definition stage2_failure_update :: "World \<Rightarrow> UpdateState \<Rightarrow> UpdateState" where
  "stage2_failure_update w s =
     s\<lparr>downloadedInstallerFilename := [],
       githubUpdateLastCheckedDate := Some (timeutil_now w),
       state := errorDownloading\<rparr>"

text \<open>
  The installer step of Stage 2 (source lines 143 to 170) on the lower-cased path:
  \<open>Some success\<close>, or \<open>None\<close> when the wait for the bootstrapper never ends.
\<close>

definition bootstrapper_mask :: "see_mask list" where
  "bootstrapper_mask =
     [SEE_MASK_FLAG_NO_UI, SEE_MASK_NOASYNC, SEE_MASK_NOCLOSEPROCESS, SEE_MASK_NO_CONSOLE]"

definition run_installer :: "Env \<Rightarrow> wstring \<Rightarrow> World \<Rightarrow> bool option \<times> World" where
  "run_installer env installer_path w =
     (if ends_with installer_path (L ''.msi'') then
        (case MsiInstallProductW env installer_path None w of
           (rc, w1) \<Rightarrow> (Some (rc = ERROR_SUCCESS), w1))
      else
        (case ShellExecuteExW env bootstrapper_mask installer_path (L ''/passive /norestart'') w of
           (False, w1) \<Rightarrow> (Some False, w1)
         | (True, w1) \<Rightarrow>
             (case wait_for_exit_code env installer_path w1 of
                (None, w2) \<Rightarrow> (None, w2)
              | (Some exitCode, w2) \<Rightarrow> (Some (exitCode = 0), w2))))"

definition InstallNewVersionStage2 ::
  "Env \<Rightarrow> wstring \<Rightarrow> wstring \<Rightarrow> bool \<Rightarrow> World \<Rightarrow> bool option \<times> World" where
  "InstallNewVersionStage2 env installer_path0 install_path launch_powertoys w =
     (let installer_path = map towlower installer_path0 in
      case run_installer env installer_path w of
        (None, w1) \<Rightarrow> (None, w1)
      | (Some False, w1) \<Rightarrow> (Some False, w1)
      | (Some True, w1) \<Rightarrow>
          (let w2 = snd (fs_remove installer_path w1);
               w3 = UpdateState_store stage2_success_update w2
           in if launch_powertoys then
                (let new_pt_path = install_path @ [0x5C] @ L ''PowerToys.exe'' in
                 case ShellExecuteExW env [SEE_MASK_FLAG_NO_UI, SEE_MASK_NOASYNC]
                        new_pt_path (UPDATE_REPORT_SUCCESS env) w3 of
                   (ok, w4) \<Rightarrow> (Some ok, w4))
              else (Some True, w3)))"

text \<open>
  How a run of the process ends: with an exit code, in undefined behaviour (a read
  past the end of the argument array), or never (the wait for the installer).
\<close>

datatype outcome = Exit int | Undefined_behaviour | Never_returns

text \<open>
  \<open>argv\<close> is what \<^verbatim>\<open>CommandLineToArgvW\<close> returns: \<open>None\<close> for a null pointer,
  otherwise the \<^verbatim>\<open>nArgs\<close> arguments. \<^verbatim>\<open>args[i]\<close> is defined only below
  \<^verbatim>\<open>nArgs\<close>.
\<close>

definition WinMain :: "Env \<Rightarrow> wstring list option \<Rightarrow> World \<Rightarrow> outcome \<times> World" where
  "WinMain env argv w =
     (case argv of
        None \<Rightarrow> (Exit 1, w)
      | Some args \<Rightarrow>
          if length args < 2 then (Exit 1, w)
          else
            (let action = args ! 1;
                 w0 = emit LoggerInit w
             in if action = UPDATE_NOW_LAUNCH_STAGE1 env then
                  (case InstallNewVersionStage1 env w0 of
                     (ok, w1) \<Rightarrow>
                       (let failed = \<not> ok in
                        if failed then (Exit 1, UpdateState_store stage1_failure_update w1)
                        else (Exit 0, w1)))
                else if action = UPDATE_NOW_LAUNCH_STAGE2 env then
                  (if length args < 5 then (Undefined_behaviour, w0)
                   else
                     (case InstallNewVersionStage2 env (args ! 2) (args ! 3)
                             (args ! 4 = UPDATE_STAGE2_RESTART_PT env) w0 of
                        (None, w1) \<Rightarrow> (Never_returns, w1)
                      | (Some ok, w1) \<Rightarrow>
                          (let failed = \<not> ok in
                           if failed then (Exit 1, UpdateState_store stage2_failure_update w1)
                           else (Exit 0, w1))))
                else (Exit 0, w0)))"

section \<open>Notions the properties are stated with\<close>

text \<open>
  The installer run succeeds: the package-installer call returns \<open>ERROR_SUCCESS\<close>,
  or the bootstrapper is launched and its process exits with code 0. The argument is
  the path the installer is run on.
\<close>

definition installer_succeeds :: "Env \<Rightarrow> wstring \<Rightarrow> bool" where
  "installer_succeeds env p =
     (if ends_with p (L ''.msi'') then msi_return_code env p = ERROR_SUCCESS
      else launch_accepted env p (L ''/passive /norestart'') bootstrapper_mask
           \<and> child_exit_code env p = Some 0)"

definition is_window_message :: "event \<Rightarrow> bool" where
  "is_window_message e = (case e of WindowMessage h m \<Rightarrow> True | _ \<Rightarrow> False)"

definition is_launch :: "event \<Rightarrow> bool" where
  "is_launch e = (case e of ProcessLaunch f a m \<Rightarrow> True | _ \<Rightarrow> False)"

definition is_state_write :: "event \<Rightarrow> bool" where
  "is_state_write e = (case e of StateWrite s \<Rightarrow> True | _ \<Rightarrow> False)"

definition is_file_remove :: "event \<Rightarrow> bool" where
  "is_file_remove e = (case e of FileRemove p \<Rightarrow> True | _ \<Rightarrow> False)"

definition is_installer_call :: "event \<Rightarrow> bool" where
  "is_installer_call e =
     (case e of MsiInstall p c l \<Rightarrow> True
      | ProcessLaunch f a m \<Rightarrow> SEE_MASK_NOCLOSEPROCESS \<in> set m
      | _ \<Rightarrow> False)"

text \<open>A package-installer call that runs silently, with no user interface.\<close>

definition is_silent_msi_call :: "event \<Rightarrow> bool" where
  "is_silent_msi_call e =
     (case e of MsiInstall p c l \<Rightarrow> l = INSTALLUILEVEL_NONE | _ \<Rightarrow> False)"

text \<open>
  The trace of the installer step on path \<open>p\<close>, the launch event of the host
  application, and the two records the program writes.
\<close>

definition installer_trace :: "Env \<Rightarrow> wstring \<Rightarrow> event list" where
  "installer_trace env p =
     (if ends_with p (L ''.msi'') then [MsiInstall p None (msi_ui_level env)]
      else if launch_accepted env p (L ''/passive /norestart'') bootstrapper_mask
      then [ProcessLaunch p (L ''/passive /norestart'') bootstrapper_mask, ProcessWait p]
      else [ProcessLaunch p (L ''/passive /norestart'') bootstrapper_mask])"

definition relaunch_event :: "Env \<Rightarrow> wstring \<Rightarrow> event" where
  "relaunch_event env dir =
     ProcessLaunch (dir @ [0x5C] @ L ''PowerToys.exe'') (UPDATE_REPORT_SUCCESS env)
       [SEE_MASK_FLAG_NO_UI, SEE_MASK_NOASYNC]"

definition up_to_date_at :: "nat \<Rightarrow> UpdateState" where
  "up_to_date_at t =
     \<lparr>state = upToDate, githubUpdateLastCheckedDate = Some t, downloadedInstallerFilename = []\<rparr>"

definition error_downloading_at :: "nat \<Rightarrow> UpdateState" where
  "error_downloading_at t =
     \<lparr>state = errorDownloading, githubUpdateLastCheckedDate = Some t,
      downloadedInstallerFilename = []\<rparr>"

subsection \<open>A concrete environment and world\<close>

definition demo_env :: Env where
  "demo_env =
     \<lparr>UPDATE_NOW_LAUNCH_STAGE1 = L ''-update_now'',
      UPDATE_NOW_LAUNCH_STAGE2 = L ''-update_now_stage_2'',
      UPDATE_STAGE2_RESTART_PT = L ''restart'',
      UPDATE_STAGE2_DONT_START_PT = L ''dont_start'',
      UPDATE_REPORT_SUCCESS = L ''-report_update_success'',
      pt_tray_icon_window_class = L ''PToyTrayIconWindow'',
      get_module_filename = L ''c:/pt/PowerToys.Update.exe'',
      get_module_folderpath = L ''c:/pt'',
      get_pending_updates_path = L ''c:/updates'',
      temp_directory_path = L ''c:/temp'',
      path_append = (\<lambda>p q. p @ [0x5C] @ q),
      copy_file_error = (\<lambda>src dst. False),
      github_version_info_result = Inr version_up_to_date,
      download_result = (\<lambda>info. None),
      window_of_class = (\<lambda>c. Some 7),
      launch_accepted = (\<lambda>f a m. True),
      msi_return_code = (\<lambda>p. 0),
      child_exit_code = (\<lambda>p. Some 0),
      msi_ui_level = INSTALLUILEVEL_DEFAULT\<rparr>"

definition demo_world :: World where
  "demo_world =
     \<lparr>persisted = \<lparr>state = readyToInstall, githubUpdateLastCheckedDate = None,
                   downloadedInstallerFilename = L ''update.msi''\<rparr>,
      files = {L ''c:/updates'' @ [0x5C] @ L ''update.msi''},
      undeletable = {},
      clock = 1000,
      events = []\<rparr>"

definition demo_args :: "wstring list" where
  "demo_args =
     [L ''PowerToys.Update.exe'', L ''-update_now_stage_2'',
      L ''C:/Updates'' @ [0x5C] @ L ''Update.MSI'', L ''c:/pt'', L ''restart'']"

section \<open>Basic facts\<close>

lemmas demo_defs = demo_env_def demo_world_def demo_args_def L_def towlower_def ends_with_def
  fs_key_def ERROR_SUCCESS_def bootstrapper_mask_def UpdateState_default_def

lemma towlower_same_letter: "same_letter c d \<Longrightarrow> towlower c = towlower d"
  unfolding same_letter_def towlower_def by unat_arith

lemma map_towlower_same_up_to_case:
  "same_up_to_case s t \<Longrightarrow> map towlower s = map towlower t"
  unfolding same_up_to_case_def
  by (induction s t rule: list_all2_induct) (simp_all add: towlower_same_letter)

lemma towlower_idem: "towlower (towlower c) = towlower c"
  unfolding towlower_def by unat_arith

lemma fs_key_towlower: "fs_key (map towlower p) = fs_key p"
  by (simp add: fs_key_def towlower_idem)

lemma emit_sel:
  "persisted (emit e w) = persisted w"
  "events (emit e w) = events w @ [e]"
  "files (emit e w) = files w"
  "clock (emit e w) = clock w"
  "undeletable (emit e w) = undeletable w"
  by (simp_all add: emit_def)

lemma UpdateState_store_sel:
  "persisted (UpdateState_store f w) = f w (persisted w)"
  "events (UpdateState_store f w) = events w @ [StateWrite (f w (persisted w))]"
  "files (UpdateState_store f w) = files w"
  "clock (UpdateState_store f w) = clock w"
  "undeletable (UpdateState_store f w) = undeletable w"
  by (simp_all add: UpdateState_store_def emit_def Let_def)

lemma fs_remove_sel:
  "persisted (snd (fs_remove p w)) = persisted w"
  "clock (snd (fs_remove p w)) = clock w"
  "undeletable (snd (fs_remove p w)) = undeletable w"
  "events (snd (fs_remove p w)) = events w @ [FileRemove p]"
  "files (snd (fs_remove p w)) =
     (if fs_key p \<in> undeletable w then files w else files w - {fs_key p})"
  by (simp_all add: fs_remove_def emit_def Let_def)

subsection \<open>The installer step\<close>

lemma run_installer_success_iff:
  "fst (run_installer env p w) = Some True \<longleftrightarrow> installer_succeeds env p"
  by (auto simp: run_installer_def installer_succeeds_def ShellExecuteExW_def
       MsiInstallProductW_def wait_for_exit_code_def
       split: option.splits bool.splits prod.splits)

lemma run_installer_frame:
  "run_installer env p w = (r, w1) \<Longrightarrow>
   persisted w1 = persisted w \<and> files w1 = files w \<and> undeletable w1 = undeletable w
   \<and> clock w1 = clock w"
  by (auto simp: run_installer_def ShellExecuteExW_def MsiInstallProductW_def
       wait_for_exit_code_def emit_def split: option.splits bool.splits if_splits)

lemma run_installer_events:
  "run_installer env p w = (r, w1) \<Longrightarrow>
   events w1 = events w @
     (if ends_with p (L ''.msi'') then [MsiInstall p None (msi_ui_level env)]
      else if launch_accepted env p (L ''/passive /norestart'') bootstrapper_mask
      then [ProcessLaunch p (L ''/passive /norestart'') bootstrapper_mask, ProcessWait p]
      else [ProcessLaunch p (L ''/passive /norestart'') bootstrapper_mask])"
  by (auto simp: run_installer_def ShellExecuteExW_def MsiInstallProductW_def
       wait_for_exit_code_def emit_def split: option.splits bool.splits if_splits)

subsection \<open>The three ways Stage 2 ends\<close>

lemma Stage2_not_succeeded:
  "run_installer env (map towlower p) w = (r, w1) \<Longrightarrow> r \<noteq> Some True \<Longrightarrow>
   InstallNewVersionStage2 env p dir launch w = (r, w1)"
  by (cases r) (auto simp: InstallNewVersionStage2_def)

lemma Stage2_succeeded_no_restart:
  "run_installer env (map towlower p) w = (Some True, w1) \<Longrightarrow>
   InstallNewVersionStage2 env p dir False w =
     (Some True, UpdateState_store stage2_success_update (snd (fs_remove (map towlower p) w1)))"
  by (simp add: InstallNewVersionStage2_def)

lemma Stage2_succeeded_restart:
  "run_installer env (map towlower p) w = (Some True, w1) \<Longrightarrow>
   InstallNewVersionStage2 env p dir True w =
     (Some (launch_accepted env (dir @ [0x5C] @ L ''PowerToys.exe'') (UPDATE_REPORT_SUCCESS env)
              [SEE_MASK_FLAG_NO_UI, SEE_MASK_NOASYNC]),
      emit (ProcessLaunch (dir @ [0x5C] @ L ''PowerToys.exe'') (UPDATE_REPORT_SUCCESS env)
              [SEE_MASK_FLAG_NO_UI, SEE_MASK_NOASYNC])
        (UpdateState_store stage2_success_update (snd (fs_remove (map towlower p) w1))))"
  by (simp add: InstallNewVersionStage2_def ShellExecuteExW_def Let_def)

lemma stage2_success_update_eq: "stage2_success_update w s = up_to_date_at (clock w)"
  by (simp add: stage2_success_update_def up_to_date_at_def UpdateState_default_def timeutil_now_def)

lemma stage2_failure_update_eq: "stage2_failure_update w s = error_downloading_at (clock w)"
  by (simp add: stage2_failure_update_def error_downloading_at_def timeutil_now_def)

lemma stage1_failure_update_eq: "stage1_failure_update w s = error_downloading_at (clock w)"
  by (simp add: stage1_failure_update_def error_downloading_at_def timeutil_now_def)

lemma Stage2_installer_not_succeeded:
  assumes "\<not> installer_succeeds env (map towlower p)"
    and "InstallNewVersionStage2 env p dir launch w = (r, w')"
  shows "r \<noteq> Some True \<and> persisted w' = persisted w \<and> files w' = files w
       \<and> undeletable w' = undeletable w \<and> clock w' = clock w
       \<and> events w' = events w @ installer_trace env (map towlower p)"
proof -
  obtain r1 w1 where ri: "run_installer env (map towlower p) w = (r1, w1)"
    by (cases "run_installer env (map towlower p) w")
  with assms(1) have ne: "r1 \<noteq> Some True"
    using run_installer_success_iff [of env "map towlower p" w] by auto
  from Stage2_not_succeeded [OF ri ne] assms(2) have "r = r1" "w' = w1" by simp_all
  with ne run_installer_frame [OF ri] run_installer_events [OF ri]
  show ?thesis by (simp add: installer_trace_def)
qed

lemma Stage2_installer_succeeded:
  assumes "installer_succeeds env (map towlower p)"
    and "InstallNewVersionStage2 env p dir launch w = (r, w')"
  shows "r = Some (\<not> launch \<or> launch_accepted env (dir @ [0x5C] @ L ''PowerToys.exe'')
                      (UPDATE_REPORT_SUCCESS env) [SEE_MASK_FLAG_NO_UI, SEE_MASK_NOASYNC])
       \<and> persisted w' = up_to_date_at (clock w)
       \<and> files w' = (if fs_key p \<in> undeletable w then files w else files w - {fs_key p})
       \<and> undeletable w' = undeletable w \<and> clock w' = clock w
       \<and> events w' = events w @ installer_trace env (map towlower p)
            @ [FileRemove (map towlower p), StateWrite (up_to_date_at (clock w))]
            @ (if launch then [relaunch_event env dir] else [])"
proof -
  obtain r1 w1 where ri: "run_installer env (map towlower p) w = (r1, w1)"
    by (cases "run_installer env (map towlower p) w")
  with assms(1) have r1: "r1 = Some True"
    using run_installer_success_iff [of env "map towlower p" w] by auto
  note fr = run_installer_frame [OF ri] and ev = run_installer_events [OF ri]
  show ?thesis
  proof (cases launch)
    case True
    with Stage2_succeeded_restart [OF ri [unfolded r1]] assms(2) fr ev show ?thesis
      by (auto simp: emit_sel UpdateState_store_sel fs_remove_sel stage2_success_update_eq
          fs_key_towlower installer_trace_def relaunch_event_def)
  next
    case False
    with Stage2_succeeded_no_restart [OF ri [unfolded r1]] assms(2) fr ev show ?thesis
      by (auto simp: emit_sel UpdateState_store_sel fs_remove_sel stage2_success_update_eq
          fs_key_towlower installer_trace_def relaunch_event_def)
  qed
qed

lemma WinMain_stage2:
  assumes "5 \<le> length args"
    and "args ! 1 = UPDATE_NOW_LAUNCH_STAGE2 env"
    and "UPDATE_NOW_LAUNCH_STAGE2 env \<noteq> UPDATE_NOW_LAUNCH_STAGE1 env"
  shows "WinMain env (Some args) w =
     (case InstallNewVersionStage2 env (args ! 2) (args ! 3)
             (args ! 4 = UPDATE_STAGE2_RESTART_PT env) (emit LoggerInit w) of
        (None, w1) \<Rightarrow> (Never_returns, w1)
      | (Some ok, w1) \<Rightarrow>
          if ok then (Exit 0, w1) else (Exit 1, UpdateState_store stage2_failure_update w1))"
  using assms by (auto simp: WinMain_def Let_def split: prod.splits option.splits)

lemmas ev_defs = is_window_message_def is_launch_def is_state_write_def is_file_remove_def
  is_installer_call_def

lemma installer_trace_filters:
  "filter is_state_write (installer_trace env p) = []"
  "filter is_file_remove (installer_trace env p) = []"
  "filter is_window_message (installer_trace env p) = []"
  "filter is_installer_call (installer_trace env p) =
     [if ends_with p (L ''.msi'') then MsiInstall p None (msi_ui_level env)
      else ProcessLaunch p (L ''/passive /norestart'') bootstrapper_mask]"
  "take (Suc 0) (installer_trace env p) =
     [if ends_with p (L ''.msi'') then MsiInstall p None (msi_ui_level env)
      else ProcessLaunch p (L ''/passive /norestart'') bootstrapper_mask]"
  by (simp_all add: installer_trace_def ev_defs bootstrapper_mask_def)

lemma ObtainInstallerPath_trace:
  "ObtainInstallerPath env w = (r, w1) \<Longrightarrow>
   persisted w1 = persisted w \<and> clock w1 = clock w \<and>
   (\<exists>xs. events w1 = events w @ xs \<and> filter is_window_message xs = []
      \<and> filter is_launch xs = [] \<and> filter is_state_write xs = [])"
  by (auto simp: ObtainInstallerPath_def UpdateState_read_def Let_def emit_def ev_defs
      get_github_version_info_async_def download_new_version_def
      split: if_splits sum.splits github_version_info.splits option.splits)

lemma CopySelfToTempDir_trace:
  "CopySelfToTempDir env w = (r, w1) \<Longrightarrow>
   persisted w1 = persisted w \<and> clock w1 = clock w \<and>
   (\<exists>xs. events w1 = events w @ xs \<and> filter is_window_message xs = []
      \<and> filter is_launch xs = [] \<and> filter is_state_write xs = [])"
  by (auto simp: CopySelfToTempDir_def Let_def emit_def ev_defs split: if_splits)

lemma Stage1_after_copy:
  assumes "ObtainInstallerPath env w = (Some installer, w1)"
    and "CopySelfToTempDir env w1 = (Some copy_in_temp, w2)"
  shows "InstallNewVersionStage1 env w =
     (let pt_main_window = window_of_class env (pt_tray_icon_window_class env) in
      ShellExecuteExW env [SEE_MASK_FLAG_NO_UI, SEE_MASK_NOASYNC] copy_in_temp
        (stage2_arguments env installer (pt_main_window \<noteq> None))
        (case pt_main_window of Some h \<Rightarrow> emit (WindowMessage h WM_CLOSE) w2 | None \<Rightarrow> w2))"
  using assms by (simp add: InstallNewVersionStage1_def Let_def)

lemma Stage2_events:
  "events (snd (InstallNewVersionStage2 env p dir launch w)) =
     events w @ installer_trace env (map towlower p)
       @ (if installer_succeeds env (map towlower p)
          then [FileRemove (map towlower p), StateWrite (up_to_date_at (clock w))]
               @ (if launch then [relaunch_event env dir] else [])
          else [])"
proof -
  obtain r w' where s2: "InstallNewVersionStage2 env p dir launch w = (r, w')"
    by (cases "InstallNewVersionStage2 env p dir launch w")
  show ?thesis
    using Stage2_installer_succeeded [OF _ s2] Stage2_installer_not_succeeded [OF _ s2]
    by (simp add: s2)
qed

lemma Stage2_new_installer_calls:
  "filter is_installer_call (new_events w (snd (InstallNewVersionStage2 env p dir launch w)))
     = [if ends_with (map towlower p) (L ''.msi'') then MsiInstall (map towlower p) None (msi_ui_level env)
        else ProcessLaunch (map towlower p) (L ''/passive /norestart'') bootstrapper_mask]"
  "take (Suc 0) (new_events w (snd (InstallNewVersionStage2 env p dir launch w)))
     = [if ends_with (map towlower p) (L ''.msi'') then MsiInstall (map towlower p) None (msi_ui_level env)
        else ProcessLaunch (map towlower p) (L ''/passive /norestart'') bootstrapper_mask]"
proof -
  have ne: "installer_trace env (map towlower p) \<noteq> []"
    by (simp add: installer_trace_def)
  show "filter is_installer_call (new_events w (snd (InstallNewVersionStage2 env p dir launch w)))
     = [if ends_with (map towlower p) (L ''.msi'') then MsiInstall (map towlower p) None (msi_ui_level env)
        else ProcessLaunch (map towlower p) (L ''/passive /norestart'') bootstrapper_mask]"
    by (simp add: new_events_def Stage2_events installer_trace_filters relaunch_event_def ev_defs)
  show "take (Suc 0) (new_events w (snd (InstallNewVersionStage2 env p dir launch w)))
     = [if ends_with (map towlower p) (L ''.msi'') then MsiInstall (map towlower p) None (msi_ui_level env)
        else ProcessLaunch (map towlower p) (L ''/passive /norestart'') bootstrapper_mask]"
    using ne installer_trace_filters(5) [of env "map towlower p"]
    by (cases "installer_trace env (map towlower p)") (simp_all add: new_events_def Stage2_events)
qed

subsection \<open>Stage 1 and the whole run\<close>

lemma Stage1_trace:
  "InstallNewVersionStage1 env w = (r, w') \<Longrightarrow>
   persisted w' = persisted w \<and> clock w' = clock w \<and>
   (\<exists>xs. events w' = events w @ xs \<and> filter is_state_write xs = [])"
proof -
  assume s1: "InstallNewVersionStage1 env w = (r, w')"
  obtain ro w1 where o: "ObtainInstallerPath env w = (ro, w1)"
    by (cases "ObtainInstallerPath env w")
  from ObtainInstallerPath_trace [OF o] obtain xs where
    xs: "persisted w1 = persisted w" "clock w1 = clock w" "events w1 = events w @ xs"
      "filter is_state_write xs = []" by blast
  show ?thesis
  proof (cases ro)
    case None
    with s1 o xs show ?thesis by (auto simp: InstallNewVersionStage1_def)
  next
    case (Some installer)
    obtain rc w2 where c: "CopySelfToTempDir env w1 = (rc, w2)"
      by (cases "CopySelfToTempDir env w1")
    from CopySelfToTempDir_trace [OF c] obtain ys where
      ys: "persisted w2 = persisted w1" "clock w2 = clock w1" "events w2 = events w1 @ ys"
        "filter is_state_write ys = []" by blast
    show ?thesis
    proof (cases rc)
      case None
      with s1 o c Some xs ys show ?thesis by (auto simp: InstallNewVersionStage1_def)
    next
      case (Some copy_in_temp)
      with s1 o c \<open>ro = Some installer\<close> xs ys show ?thesis
        by (auto simp: InstallNewVersionStage1_def Let_def ShellExecuteExW_def emit_def
            is_state_write_def split: option.splits)
    qed
  qed
qed

lemma WinMain_state_writes:
  "StateWrite s \<in> set (new_events w (snd (WinMain env argv w))) \<Longrightarrow>
   s = up_to_date_at (clock w) \<or> s = error_downloading_at (clock w)"
proof -
  assume a: "StateWrite s \<in> set (new_events w (snd (WinMain env argv w)))"
  have nf: "filter is_state_write xs = [] \<Longrightarrow> StateWrite s \<notin> set xs" for xs
    by (auto simp: filter_empty_conv is_state_write_def)
  show ?thesis
  proof (cases argv)
    case None
    with a show ?thesis by (simp add: WinMain_def new_events_def)
  next
    case (Some args)
    show ?thesis
    proof (cases "length args < 2")
      case True
      with a Some show ?thesis by (simp add: WinMain_def new_events_def)
    next
      case long: False
      show ?thesis
      proof (cases "args ! 1 = UPDATE_NOW_LAUNCH_STAGE1 env")
        case True
        obtain r w1 where s1: "InstallNewVersionStage1 env (emit LoggerInit w) = (r, w1)"
          by (cases "InstallNewVersionStage1 env (emit LoggerInit w)")
        from Stage1_trace [OF s1] obtain xs where
          xs: "persisted w1 = persisted w" "clock w1 = clock w"
            "events w1 = events w @ LoggerInit # xs" "filter is_state_write xs = []"
          by (auto simp: emit_sel)
        from a Some long True s1 xs nf [OF xs(4)] show ?thesis
          by (auto simp: WinMain_def Let_def new_events_def UpdateState_store_sel
              stage1_failure_update_eq split: if_splits)
      next
        case n1: False
        show ?thesis
        proof (cases "args ! 1 = UPDATE_NOW_LAUNCH_STAGE2 env")
          case False
          with a Some long n1 show ?thesis
            by (simp add: WinMain_def Let_def new_events_def emit_sel)
        next
          case True
          show ?thesis
          proof (cases "length args < 5")
            case True
            with a Some long n1 \<open>args ! 1 = UPDATE_NOW_LAUNCH_STAGE2 env\<close> show ?thesis
              by (simp add: WinMain_def Let_def new_events_def emit_sel)
          next
            case False
            let ?s2 = "InstallNewVersionStage2 env (args ! 2) (args ! 3)
                         (args ! 4 = UPDATE_STAGE2_RESTART_PT env) (emit LoggerInit w)"
            obtain r w1 where s2: "?s2 = (r, w1)" by (cases ?s2)
            have clk: "clock w1 = clock w"
              using Stage2_installer_succeeded [OF _ s2] Stage2_installer_not_succeeded [OF _ s2]
              by (cases "installer_succeeds env (map towlower (args ! 2))") (simp_all add: emit_sel)
            have ev: "events w1 = events (emit LoggerInit w) @ installer_trace env (map towlower (args ! 2))
               @ (if installer_succeeds env (map towlower (args ! 2))
                  then [FileRemove (map towlower (args ! 2)), StateWrite (up_to_date_at (clock (emit LoggerInit w)))]
                    @ (if args ! 4 = UPDATE_STAGE2_RESTART_PT env then [relaunch_event env (args ! 3)] else [])
                  else [])"
              using Stage2_events [of env "args ! 2" "args ! 3" "args ! 4 = UPDATE_STAGE2_RESTART_PT env"
                  "emit LoggerInit w"] by (simp add: s2)
            from a Some long n1 \<open>args ! 1 = UPDATE_NOW_LAUNCH_STAGE2 env\<close> False s2 ev clk
              nf [OF installer_trace_filters(1), of env "map towlower (args ! 2)"]
            show ?thesis
              by (auto simp: WinMain_def Let_def new_events_def UpdateState_store_sel emit_sel
                  stage2_failure_update_eq relaunch_event_def split: if_splits option.splits)
          qed
        qed
      qed
    qed
  qed
qed

lemmas prog_defs = WinMain_def InstallNewVersionStage2_def run_installer_def
  InstallNewVersionStage1_def ObtainInstallerPath_def CopySelfToTempDir_def
  ShellExecuteExW_def MsiInstallProductW_def wait_for_exit_code_def fs_remove_def
  UpdateState_store_def UpdateState_read_def emit_def timeutil_now_def is_regular_file_def
  stage2_success_update_def stage2_failure_update_def stage1_failure_update_def
  stage2_arguments_def get_github_version_info_async_def download_new_version_def
  new_events_def installer_succeeds_def Let_def

section \<open>The installer path resolver\<close>

text \<open>
  Claim C5. \<^verbatim>\<open>ObtainInstallerPath\<close> branches on the persisted status alone. In
  status \<open>readyToInstall\<close>, with a regular file at the path built from the
  pending-updates directory and the persisted filename, it returns exactly that path
  and leaves the world as it was: nothing is queried, nothing is downloaded. In status
  \<open>readyToInstall\<close> with no such file it returns nothing, and its only effect is
  the log entry of the missing-installer branch. In every status outside
  \<open>readyToDownload\<close>, \<open>errorDownloading\<close> and \<open>readyToInstall\<close> it returns nothing,
  and its only effect is the log entry of the invalid-state branch.
\<close>

theorem ObtainInstallerPath_by_status:
  "(let installer = path_append env (get_pending_updates_path env)
                      (downloadedInstallerFilename (persisted w))
    in (state (persisted w) = readyToInstall \<and> is_regular_file w installer \<longrightarrow>
          ObtainInstallerPath env w = (Some installer, w))
     \<and> (state (persisted w) = readyToInstall \<and> \<not> is_regular_file w installer \<longrightarrow>
          ObtainInstallerPath env w =
            (None, emit (LoggerError (Couldnt_find_downloaded_installer installer)) w))
     \<and> (state (persisted w) \<notin> {readyToDownload, errorDownloading, readyToInstall} \<longrightarrow>
          ObtainInstallerPath env w = (None, emit (LoggerError Update_state_was_invalid) w)))"
  by (simp add: ObtainInstallerPath_def UpdateState_read_def Let_def)

theorem ObtainInstallerPath_by_status_witness:
  "ObtainInstallerPath demo_env demo_world
     = (Some (L ''c:/updates'' @ [0x5C] @ L ''update.msi''), demo_world)
   \<and> ObtainInstallerPath demo_env (demo_world\<lparr>files := {}\<rparr>)
     = (None, emit (LoggerError (Couldnt_find_downloaded_installer
                      (L ''c:/updates'' @ [0x5C] @ L ''update.msi''))) (demo_world\<lparr>files := {}\<rparr>))
   \<and> ObtainInstallerPath demo_env (demo_world\<lparr>persisted := UpdateState_default\<rparr>)
     = (None, emit (LoggerError Update_state_was_invalid)
                (demo_world\<lparr>persisted := UpdateState_default\<rparr>))"
  using ObtainInstallerPath_by_status [of demo_env demo_world]
    ObtainInstallerPath_by_status [of demo_env "demo_world\<lparr>files := {}\<rparr>"]
    ObtainInstallerPath_by_status [of demo_env "demo_world\<lparr>persisted := UpdateState_default\<rparr>"]
  by (simp add: Let_def is_regular_file_def demo_defs)

section \<open>Stage 1\<close>

text \<open>
  Claim C8. When Stage 1 reaches the window check (an installer path was obtained and
  the self-copy succeeded): if the tray window of the host exists, Stage 1 sends
  exactly one window message, \<^verbatim>\<open>WM_CLOSE\<close> to that window, and the one launch
  request it makes carries handoff arguments ending in the restart token; if no such
  window exists, it sends no window message and the arguments end in the
  do-not-restart token.
\<close>

theorem Stage1_close_request_and_directive:
  assumes "ObtainInstallerPath env w = (Some installer, w1)"
    and "CopySelfToTempDir env w1 = (Some copy_in_temp, w2)"
  shows "(\<forall>h. window_of_class env (pt_tray_icon_window_class env) = Some h \<longrightarrow>
            filter is_window_message (new_events w (snd (InstallNewVersionStage1 env w)))
              = [WindowMessage h WM_CLOSE]
          \<and> filter is_launch (new_events w (snd (InstallNewVersionStage1 env w)))
              = [ProcessLaunch copy_in_temp
                   (UPDATE_NOW_LAUNCH_STAGE2 env @ [0x20, 0x22] @ installer @ [0x22, 0x20, 0x22]
                      @ get_module_folderpath env @ [0x22, 0x20] @ UPDATE_STAGE2_RESTART_PT env)
                   [SEE_MASK_FLAG_NO_UI, SEE_MASK_NOASYNC]])
       \<and> (window_of_class env (pt_tray_icon_window_class env) = None \<longrightarrow>
            filter is_window_message (new_events w (snd (InstallNewVersionStage1 env w))) = []
          \<and> filter is_launch (new_events w (snd (InstallNewVersionStage1 env w)))
              = [ProcessLaunch copy_in_temp
                   (UPDATE_NOW_LAUNCH_STAGE2 env @ [0x20, 0x22] @ installer @ [0x22, 0x20, 0x22]
                      @ get_module_folderpath env @ [0x22, 0x20] @ UPDATE_STAGE2_DONT_START_PT env)
                   [SEE_MASK_FLAG_NO_UI, SEE_MASK_NOASYNC]])"
proof -
  from ObtainInstallerPath_trace [OF assms(1)] obtain xs where
    xs: "events w1 = events w @ xs" "filter is_window_message xs = []" "filter is_launch xs = []"
    by blast
  from CopySelfToTempDir_trace [OF assms(2)] obtain ys where
    ys: "events w2 = events w1 @ ys" "filter is_window_message ys = []" "filter is_launch ys = []"
    by blast
  show ?thesis
    using xs ys
    by (auto simp: Stage1_after_copy [OF assms] ShellExecuteExW_def emit_def new_events_def
        stage2_arguments_def ev_defs)
qed

theorem Stage1_close_request_and_directive_witness:
  "filter is_window_message (new_events demo_world (snd (InstallNewVersionStage1 demo_env demo_world)))
     = [WindowMessage 7 WM_CLOSE]
   \<and> filter is_launch (new_events demo_world (snd (InstallNewVersionStage1 demo_env demo_world)))
     = [ProcessLaunch (L ''c:/temp'' @ [0x5C] @ L ''PowerToys.Update.exe'')
          (L ''-update_now_stage_2 '' @ [0x22] @ L ''c:/updates'' @ [0x5C] @ L ''update.msi''
             @ [0x22, 0x20, 0x22] @ L ''c:/pt'' @ [0x22] @ L '' restart'')
          [SEE_MASK_FLAG_NO_UI, SEE_MASK_NOASYNC]]
   \<and> filter is_window_message (new_events demo_world
        (snd (InstallNewVersionStage1 (demo_env\<lparr>window_of_class := (\<lambda>c. None)\<rparr>) demo_world))) = []
   \<and> filter is_launch (new_events demo_world
        (snd (InstallNewVersionStage1 (demo_env\<lparr>window_of_class := (\<lambda>c. None)\<rparr>) demo_world)))
     = [ProcessLaunch (L ''c:/temp'' @ [0x5C] @ L ''PowerToys.Update.exe'')
          (L ''-update_now_stage_2 '' @ [0x22] @ L ''c:/updates'' @ [0x5C] @ L ''update.msi''
             @ [0x22, 0x20, 0x22] @ L ''c:/pt'' @ [0x22] @ L '' dont_start'')
          [SEE_MASK_FLAG_NO_UI, SEE_MASK_NOASYNC]]"
proof -
  let ?installer = "L ''c:/updates'' @ [0x5C] @ L ''update.msi''"
  let ?copy = "L ''c:/temp'' @ [0x5C] @ L ''PowerToys.Update.exe''"
  let ?env' = "demo_env\<lparr>window_of_class := (\<lambda>c. None)\<rparr>"
  have o1: "ObtainInstallerPath demo_env demo_world = (Some ?installer, demo_world)"
    by (simp add: ObtainInstallerPath_def UpdateState_read_def is_regular_file_def Let_def demo_defs)
  have c1: "CopySelfToTempDir demo_env demo_world
              = (Some ?copy, snd (CopySelfToTempDir demo_env demo_world))"
    by (simp add: CopySelfToTempDir_def Let_def demo_defs)
  have o2: "ObtainInstallerPath ?env' demo_world = (Some ?installer, demo_world)"
    by (simp add: ObtainInstallerPath_def UpdateState_read_def is_regular_file_def Let_def demo_defs)
  have c2: "CopySelfToTempDir ?env' demo_world
              = (Some ?copy, snd (CopySelfToTempDir ?env' demo_world))"
    by (simp add: CopySelfToTempDir_def Let_def demo_defs)
  show ?thesis
    using Stage1_close_request_and_directive [OF o1 c1]
      Stage1_close_request_and_directive [OF o2 c2]
    by (simp add: demo_defs)
qed

section \<open>Stage 2\<close>

text \<open>
  Claim C7, amended. Stage 2 lower-cases the installer path before anything else, so
  two paths that differ only in the case of the letters of their extension give the
  same run: the same result, the same effects on the same lower-cased path. When the
  lower-cased path ends in \<^verbatim>\<open>.msi\<close>, the first effect is the synchronous call
  of the package installer \<^verbatim>\<open>MsiInstallProductW\<close> on that path, with no command
  line and at the user-interface level the process already has (the program requests
  none), and it is the only installer call of the run; otherwise the first effect is
  the launch of the path as a bootstrapper with \<^verbatim>\<open>/passive /norestart\<close>, and it
  is the only installer call of the run.
\<close>

theorem Stage2_dispatch_ignores_case:
  "(same_up_to_case e1 e2 \<longrightarrow>
      InstallNewVersionStage2 env (stem @ e1) dir launch w
        = InstallNewVersionStage2 env (stem @ e2) dir launch w)
   \<and> (ends_with (map towlower p) (L ''.msi'') \<longrightarrow>
        take 1 (new_events w (snd (InstallNewVersionStage2 env p dir launch w)))
          = [MsiInstall (map towlower p) None (msi_ui_level env)]
      \<and> filter is_installer_call (new_events w (snd (InstallNewVersionStage2 env p dir launch w)))
          = [MsiInstall (map towlower p) None (msi_ui_level env)])
   \<and> (\<not> ends_with (map towlower p) (L ''.msi'') \<longrightarrow>
        take 1 (new_events w (snd (InstallNewVersionStage2 env p dir launch w)))
          = [ProcessLaunch (map towlower p) (L ''/passive /norestart'') bootstrapper_mask]
      \<and> filter is_installer_call (new_events w (snd (InstallNewVersionStage2 env p dir launch w)))
          = [ProcessLaunch (map towlower p) (L ''/passive /norestart'') bootstrapper_mask])"
proof (intro conjI impI)
  assume "same_up_to_case e1 e2"
  then have "map towlower (stem @ e1) = map towlower (stem @ e2)"
    by (simp add: map_towlower_same_up_to_case)
  then show "InstallNewVersionStage2 env (stem @ e1) dir launch w
        = InstallNewVersionStage2 env (stem @ e2) dir launch w"
    by (simp only: InstallNewVersionStage2_def)
qed (simp_all add: Stage2_new_installer_calls)

theorem Stage2_dispatch_ignores_case_witness:
  "same_up_to_case (L ''.MSI'') (L ''.msi'')
   \<and> InstallNewVersionStage2 demo_env (L ''c:/updates/update'' @ L ''.MSI'') (L ''c:/pt'') True demo_world
       = InstallNewVersionStage2 demo_env (L ''c:/updates/update'' @ L ''.msi'') (L ''c:/pt'') True demo_world
   \<and> ends_with (map towlower (L ''update.msi'')) (L ''.msi'')
   \<and> filter is_installer_call
        (new_events demo_world (snd (InstallNewVersionStage2 demo_env (L ''update.msi'') (L ''c:/pt'') True demo_world)))
       = [MsiInstall (map towlower (L ''update.msi'')) None (msi_ui_level demo_env)]
   \<and> \<not> ends_with (map towlower (L ''Setup.EXE'')) (L ''.msi'')
   \<and> filter is_installer_call
        (new_events demo_world (snd (InstallNewVersionStage2 demo_env (L ''Setup.EXE'') (L ''c:/pt'') True demo_world)))
       = [ProcessLaunch (map towlower (L ''Setup.EXE'')) (L ''/passive /norestart'') bootstrapper_mask]"
proof -
  have h1: "same_up_to_case (L ''.MSI'') (L ''.msi'')"
    by (simp add: same_up_to_case_def same_letter_def L_def)
  have h2: "ends_with (map towlower (L ''update.msi'')) (L ''.msi'')"
    by (simp add: demo_defs)
  have h3: "\<not> ends_with (map towlower (L ''Setup.EXE'')) (L ''.msi'')"
    by (simp add: demo_defs)
  from h1 h2 h3
    Stage2_dispatch_ignores_case [of "L ''.MSI''" "L ''.msi''" demo_env "L ''c:/updates/update''"
      "L ''c:/pt''" True demo_world "L ''update.msi''"]
    Stage2_dispatch_ignores_case [of "L ''.MSI''" "L ''.msi''" demo_env "L ''c:/updates/update''"
      "L ''c:/pt''" True demo_world "L ''Setup.EXE''"]
  show ?thesis by blast
qed

text \<open>
  Claim C7 as stated fails in its word "silent": for \<^verbatim>\<open>update.msi\<close>, in a
  process whose installer user-interface level is the default one, the run makes the
  package-installer call with no command line at that default level, which is not a
  silent call.
\<close>

theorem Stage2_msi_call_not_silent_counterexample:
  "ends_with (map towlower (L ''update.msi'')) (L ''.msi'')
   \<and> filter is_installer_call
        (new_events demo_world
           (snd (InstallNewVersionStage2 demo_env (L ''update.msi'') (L ''c:/pt'') True demo_world)))
       = [MsiInstall (L ''update.msi'') None INSTALLUILEVEL_DEFAULT]
   \<and> \<not> is_silent_msi_call (MsiInstall (L ''update.msi'') None INSTALLUILEVEL_DEFAULT)
   \<and> filter is_silent_msi_call
        (new_events demo_world
           (snd (InstallNewVersionStage2 demo_env (L ''update.msi'') (L ''c:/pt'') True demo_world)))
       = []"
  by (simp add: prog_defs demo_defs is_installer_call_def is_silent_msi_call_def)

text \<open>
  Claim C3, amended. When the installer succeeds (the package-installer call returns
  success, or the bootstrapper process exits with code 0), Stage 2 returns, and the
  persisted state it leaves is \<open>upToDate\<close> with an empty filename and the timestamp
  set to the current time. The removal of the installer file is attempted on the
  lower-cased path, after the installer call and immediately before the state write,
  and its failure is ignored: the file no longer exists when the removal succeeds,
  and is left as it was when the removal fails. When the installer does not succeed,
  Stage 2 does not return success, writes no state and leaves the persisted state
  as it was: \<open>upToDate\<close> is written only after the installer has succeeded.
\<close>

theorem Stage2_installer_success:
  "(installer_succeeds env (map towlower p) \<longrightarrow>
      fst (InstallNewVersionStage2 env p dir launch w) \<noteq> None
    \<and> persisted (snd (InstallNewVersionStage2 env p dir launch w))
        = \<lparr>state = upToDate, githubUpdateLastCheckedDate = Some (clock w),
           downloadedInstallerFilename = []\<rparr>
    \<and> (\<exists>pre post. new_events w (snd (InstallNewVersionStage2 env p dir launch w))
          = pre @ [FileRemove (map towlower p),
                   StateWrite \<lparr>state = upToDate, githubUpdateLastCheckedDate = Some (clock w),
                               downloadedInstallerFilename = []\<rparr>] @ post
        \<and> filter is_installer_call pre \<noteq> []
        \<and> filter is_installer_call post = []
        \<and> filter is_state_write (pre @ post) = []
        \<and> filter is_file_remove (pre @ post) = [])
    \<and> (fs_key p \<notin> undeletable w \<longrightarrow>
          \<not> is_regular_file (snd (InstallNewVersionStage2 env p dir launch w)) p)
    \<and> (fs_key p \<in> undeletable w \<longrightarrow>
          is_regular_file (snd (InstallNewVersionStage2 env p dir launch w)) p
            = is_regular_file w p))
   \<and> (\<not> installer_succeeds env (map towlower p) \<longrightarrow>
        fst (InstallNewVersionStage2 env p dir launch w) \<noteq> Some True
      \<and> persisted (snd (InstallNewVersionStage2 env p dir launch w)) = persisted w
      \<and> filter is_state_write (new_events w (snd (InstallNewVersionStage2 env p dir launch w))) = [])"
proof (intro conjI impI)
  obtain r w' where s2: "InstallNewVersionStage2 env p dir launch w = (r, w')"
    by (cases "InstallNewVersionStage2 env p dir launch w")
  {
    assume ok: "installer_succeeds env (map towlower p)"
    note ch = Stage2_installer_succeeded [OF ok s2]
    show "fst (InstallNewVersionStage2 env p dir launch w) \<noteq> None"
      using ch s2 by simp
    show "persisted (snd (InstallNewVersionStage2 env p dir launch w))
        = \<lparr>state = upToDate, githubUpdateLastCheckedDate = Some (clock w),
           downloadedInstallerFilename = []\<rparr>"
      using ch s2 by (simp add: up_to_date_at_def)
    have ne: "new_events w w' = installer_trace env (map towlower p)
          @ [FileRemove (map towlower p), StateWrite (up_to_date_at (clock w))]
          @ (if launch then [relaunch_event env dir] else [])"
      using ch by (simp add: new_events_def)
    have pre: "filter is_installer_call (installer_trace env (map towlower p)) \<noteq> []"
      by (simp add: installer_trace_def ev_defs bootstrapper_mask_def)
    have post: "filter is_installer_call (if launch then [relaunch_event env dir] else []) = []"
      "filter is_state_write (if launch then [relaunch_event env dir] else []) = []"
      "filter is_file_remove (if launch then [relaunch_event env dir] else []) = []"
      by (simp_all add: relaunch_event_def ev_defs)
    show "\<exists>pre post. new_events w (snd (InstallNewVersionStage2 env p dir launch w))
          = pre @ [FileRemove (map towlower p),
                   StateWrite \<lparr>state = upToDate, githubUpdateLastCheckedDate = Some (clock w),
                               downloadedInstallerFilename = []\<rparr>] @ post
        \<and> filter is_installer_call pre \<noteq> []
        \<and> filter is_installer_call post = []
        \<and> filter is_state_write (pre @ post) = []
        \<and> filter is_file_remove (pre @ post) = []"
      apply (rule exI [of _ "installer_trace env (map towlower p)"])
      apply (rule exI [of _ "if launch then [relaunch_event env dir] else []"])
      using ne pre post by (simp add: s2 up_to_date_at_def installer_trace_filters(1-3))
    {
      assume "fs_key p \<notin> undeletable w"
      then show "\<not> is_regular_file (snd (InstallNewVersionStage2 env p dir launch w)) p"
        using ch s2 by (simp add: is_regular_file_def)
    }
    {
      assume "fs_key p \<in> undeletable w"
      then show "is_regular_file (snd (InstallNewVersionStage2 env p dir launch w)) p
            = is_regular_file w p"
        using ch s2 by (simp add: is_regular_file_def)
    }
  }
  {
    assume nok: "\<not> installer_succeeds env (map towlower p)"
    note ch = Stage2_installer_not_succeeded [OF nok s2]
    show "fst (InstallNewVersionStage2 env p dir launch w) \<noteq> Some True"
      using ch s2 by simp
    show "persisted (snd (InstallNewVersionStage2 env p dir launch w)) = persisted w"
      using ch s2 by simp
    show "filter is_state_write (new_events w (snd (InstallNewVersionStage2 env p dir launch w))) = []"
      using ch s2 by (simp add: new_events_def installer_trace_filters)
  }
qed

theorem Stage2_installer_success_witness:
  "installer_succeeds demo_env (map towlower (demo_args ! 2))
   \<and> fs_key (demo_args ! 2) \<notin> undeletable demo_world
   \<and> persisted (snd (InstallNewVersionStage2 demo_env (demo_args ! 2) (L ''c:/pt'') False demo_world))
       = \<lparr>state = upToDate, githubUpdateLastCheckedDate = Some (clock demo_world),
          downloadedInstallerFilename = []\<rparr>
   \<and> \<not> is_regular_file
         (snd (InstallNewVersionStage2 demo_env (demo_args ! 2) (L ''c:/pt'') False demo_world))
         (demo_args ! 2)
   \<and> \<not> installer_succeeds (demo_env\<lparr>msi_return_code := (\<lambda>p. 1603)\<rparr>) (map towlower (demo_args ! 2))
   \<and> persisted (snd (InstallNewVersionStage2 (demo_env\<lparr>msi_return_code := (\<lambda>p. 1603)\<rparr>)
                        (demo_args ! 2) (L ''c:/pt'') False demo_world))
       = persisted demo_world
   \<and> fs_key (demo_args ! 2)
       \<in> undeletable (demo_world\<lparr>undeletable := {L ''c:/updates'' @ [0x5C] @ L ''update.msi''}\<rparr>)
   \<and> is_regular_file
       (snd (InstallNewVersionStage2 demo_env (demo_args ! 2) (L ''c:/pt'') False
              (demo_world\<lparr>undeletable := {L ''c:/updates'' @ [0x5C] @ L ''update.msi''}\<rparr>)))
       (demo_args ! 2)
     = is_regular_file (demo_world\<lparr>undeletable := {L ''c:/updates'' @ [0x5C] @ L ''update.msi''}\<rparr>)
         (demo_args ! 2)"
proof -
  let ?bad = "demo_env\<lparr>msi_return_code := (\<lambda>p. 1603)\<rparr>"
  let ?held = "demo_world\<lparr>undeletable := {L ''c:/updates'' @ [0x5C] @ L ''update.msi''}\<rparr>"
  have ok: "installer_succeeds demo_env (map towlower (demo_args ! 2))"
    by (simp add: installer_succeeds_def demo_defs)
  have del: "fs_key (demo_args ! 2) \<notin> undeletable demo_world"
    by (simp add: demo_defs)
  have nok: "\<not> installer_succeeds ?bad (map towlower (demo_args ! 2))"
    by (simp add: installer_succeeds_def demo_defs)
  have und: "fs_key (demo_args ! 2) \<in> undeletable ?held"
    by (simp add: demo_defs)
  from ok del Stage2_installer_success [of demo_env "demo_args ! 2" "L ''c:/pt''" False demo_world]
  have a: "persisted (snd (InstallNewVersionStage2 demo_env (demo_args ! 2) (L ''c:/pt'') False demo_world))
       = \<lparr>state = upToDate, githubUpdateLastCheckedDate = Some (clock demo_world),
          downloadedInstallerFilename = []\<rparr>
     \<and> \<not> is_regular_file
         (snd (InstallNewVersionStage2 demo_env (demo_args ! 2) (L ''c:/pt'') False demo_world))
         (demo_args ! 2)"
    by blast
  from nok Stage2_installer_success [of ?bad "demo_args ! 2" "L ''c:/pt''" False demo_world]
  have b: "persisted (snd (InstallNewVersionStage2 ?bad (demo_args ! 2) (L ''c:/pt'') False demo_world))
       = persisted demo_world"
    by blast
  from ok und Stage2_installer_success [of demo_env "demo_args ! 2" "L ''c:/pt''" False ?held]
  have c: "is_regular_file
       (snd (InstallNewVersionStage2 demo_env (demo_args ! 2) (L ''c:/pt'') False ?held))
       (demo_args ! 2) = is_regular_file ?held (demo_args ! 2)"
    by blast
  from ok del nok und a b c show ?thesis by blast
qed

text \<open>
  Claim C3 as stated fails where the installer file cannot be removed: the installer
  succeeds, Stage 2 returns true with status \<open>upToDate\<close>, and the installer file
  still exists.
\<close>

theorem Stage2_installer_not_deleted_counterexample:
  "installer_succeeds demo_env (map towlower (demo_args ! 2))
   \<and> fst (InstallNewVersionStage2 demo_env (demo_args ! 2) (demo_args ! 3) False
            (demo_world\<lparr>undeletable := {L ''c:/updates'' @ [0x5C] @ L ''update.msi''}\<rparr>)) = Some True
   \<and> state (persisted (snd (InstallNewVersionStage2 demo_env (demo_args ! 2) (demo_args ! 3) False
            (demo_world\<lparr>undeletable := {L ''c:/updates'' @ [0x5C] @ L ''update.msi''}\<rparr>)))) = upToDate
   \<and> is_regular_file (snd (InstallNewVersionStage2 demo_env (demo_args ! 2) (demo_args ! 3) False
            (demo_world\<lparr>undeletable := {L ''c:/updates'' @ [0x5C] @ L ''update.msi''}\<rparr>)))
        (demo_args ! 2)"
  by (simp add: prog_defs demo_defs)

text \<open>
  Claim C4. When the installer fails (the package-installer call returns anything but
  \<open>ERROR_SUCCESS\<close>, or the bootstrapper process exits with a non-zero code),
  Stage 2 returns false, removes no file (the file table is unchanged and no removal
  is attempted) and leaves the persisted state alone; \<^verbatim>\<open>WinMain\<close> then exits with
  code 1 after rewriting the persisted state to \<open>errorDownloading\<close> with the
  filename cleared and the timestamp set to the current time, the files still
  untouched.
\<close>

theorem Stage2_installer_failure:
  assumes "5 \<le> length args"
    and "args ! 1 = UPDATE_NOW_LAUNCH_STAGE2 env"
    and "UPDATE_NOW_LAUNCH_STAGE2 env \<noteq> UPDATE_NOW_LAUNCH_STAGE1 env"
    and "p = map towlower (args ! 2)"
    and "(ends_with p (L ''.msi'') \<and> msi_return_code env p \<noteq> ERROR_SUCCESS)
       \<or> (\<not> ends_with p (L ''.msi'')
           \<and> launch_accepted env p (L ''/passive /norestart'') bootstrapper_mask
           \<and> (\<exists>c. child_exit_code env p = Some c \<and> c \<noteq> 0))"
  shows "fst (InstallNewVersionStage2 env (args ! 2) dir launch w0) = Some False
       \<and> files (snd (InstallNewVersionStage2 env (args ! 2) dir launch w0)) = files w0
       \<and> filter is_file_remove
            (new_events w0 (snd (InstallNewVersionStage2 env (args ! 2) dir launch w0))) = []
       \<and> persisted (snd (InstallNewVersionStage2 env (args ! 2) dir launch w0)) = persisted w0
       \<and> fst (WinMain env (Some args) w) = Exit 1
       \<and> persisted (snd (WinMain env (Some args) w))
           = \<lparr>state = errorDownloading, githubUpdateLastCheckedDate = Some (clock w),
              downloadedInstallerFilename = []\<rparr>
       \<and> files (snd (WinMain env (Some args) w)) = files w
       \<and> filter is_file_remove (new_events w (snd (WinMain env (Some args) w))) = []"
proof -
  from assms(5) have ns: "\<not> installer_succeeds env (map towlower (args ! 2))"
    unfolding assms(4) [symmetric] by (auto simp: installer_succeeds_def)
  from assms(5) have hang: "\<not> ends_with p (L ''.msi'') \<and>
      launch_accepted env p (L ''/passive /norestart'') bootstrapper_mask \<longrightarrow> child_exit_code env p \<noteq> None"
    by auto
  have ret: "fst (InstallNewVersionStage2 env (args ! 2) dir' launch' w') \<noteq> None" for dir' launch' w'
    using hang ns unfolding assms(4)
    by (auto simp: InstallNewVersionStage2_def run_installer_def ShellExecuteExW_def
        MsiInstallProductW_def wait_for_exit_code_def Let_def installer_succeeds_def
        split: option.splits bool.splits prod.splits)
  have a: "fst (InstallNewVersionStage2 env (args ! 2) dir' launch' w') = Some False
       \<and> files (snd (InstallNewVersionStage2 env (args ! 2) dir' launch' w')) = files w'
       \<and> persisted (snd (InstallNewVersionStage2 env (args ! 2) dir' launch' w')) = persisted w'
       \<and> clock (snd (InstallNewVersionStage2 env (args ! 2) dir' launch' w')) = clock w'
       \<and> events (snd (InstallNewVersionStage2 env (args ! 2) dir' launch' w'))
           = events w' @ installer_trace env (map towlower (args ! 2))" for dir' launch' w'
  proof -
    obtain r w1 where s2: "InstallNewVersionStage2 env (args ! 2) dir' launch' w' = (r, w1)"
      by (cases "InstallNewVersionStage2 env (args ! 2) dir' launch' w'")
    from Stage2_installer_not_succeeded [OF ns s2] ret [of dir' launch' w'] s2
    show ?thesis by auto
  qed
  let ?s2 = "InstallNewVersionStage2 env (args ! 2) (args ! 3)
               (args ! 4 = UPDATE_STAGE2_RESTART_PT env) (emit LoggerInit w)"
  have wm: "WinMain env (Some args) w = (Exit 1, UpdateState_store stage2_failure_update (snd ?s2))"
    using WinMain_stage2 [OF assms(1-3), of w]
      a [of "args ! 3" "args ! 4 = UPDATE_STAGE2_RESTART_PT env" "emit LoggerInit w"]
    by (cases ?s2) auto
  show ?thesis
    using a [of dir launch w0]
      a [of "args ! 3" "args ! 4 = UPDATE_STAGE2_RESTART_PT env" "emit LoggerInit w"]
    by (simp add: wm new_events_def UpdateState_store_sel emit_sel stage2_failure_update_eq
        error_downloading_at_def installer_trace_filters is_file_remove_def)
qed

theorem Stage2_installer_failure_witness:
  "fst (InstallNewVersionStage2 (demo_env\<lparr>child_exit_code := (\<lambda>p. Some 1603)\<rparr>)
          (L ''c:/updates/Setup.EXE'') (L ''c:/pt'') True demo_world) = Some False
   \<and> fst (WinMain (demo_env\<lparr>child_exit_code := (\<lambda>p. Some 1603)\<rparr>)
            (Some [L ''PowerToys.Update.exe'', L ''-update_now_stage_2'', L ''c:/updates/Setup.EXE'',
                   L ''c:/pt'', L ''restart'']) demo_world) = Exit 1
   \<and> persisted (snd (WinMain (demo_env\<lparr>child_exit_code := (\<lambda>p. Some 1603)\<rparr>)
            (Some [L ''PowerToys.Update.exe'', L ''-update_now_stage_2'', L ''c:/updates/Setup.EXE'',
                   L ''c:/pt'', L ''restart'']) demo_world))
       = \<lparr>state = errorDownloading, githubUpdateLastCheckedDate = Some 1000,
          downloadedInstallerFilename = []\<rparr>"
proof -
  let ?env = "demo_env\<lparr>child_exit_code := (\<lambda>p. Some 1603)\<rparr>"
  let ?args = "[L ''PowerToys.Update.exe'', L ''-update_now_stage_2'', L ''c:/updates/Setup.EXE'',
                   L ''c:/pt'', L ''restart'']"
  let ?p = "L ''c:/updates/setup.exe''"
  have "5 \<le> length ?args" "?args ! 1 = UPDATE_NOW_LAUNCH_STAGE2 ?env"
    "UPDATE_NOW_LAUNCH_STAGE2 ?env \<noteq> UPDATE_NOW_LAUNCH_STAGE1 ?env"
    "?p = map towlower (?args ! 2)"
    "(ends_with ?p (L ''.msi'') \<and> msi_return_code ?env ?p \<noteq> ERROR_SUCCESS)
       \<or> (\<not> ends_with ?p (L ''.msi'')
           \<and> launch_accepted ?env ?p (L ''/passive /norestart'') bootstrapper_mask
           \<and> (\<exists>c. child_exit_code ?env ?p = Some c \<and> c \<noteq> 0))"
    by (simp_all add: demo_defs)
  from Stage2_installer_failure [OF this, of "L ''c:/pt''" True demo_world demo_world]
  show ?thesis by (simp add: demo_world_def)
qed

text \<open>
  Claim C1, amended. When the installer run of Stage 2 succeeds and the request to
  launch the host application again is rejected, \<^verbatim>\<open>InstallNewVersionStage2\<close> has
  written \<open>upToDate\<close> and returns false; the process exits with code 1, and the
  failure handler of \<^verbatim>\<open>WinMain\<close> then writes \<open>errorDownloading\<close> with the
  filename cleared and the timestamp set to the current time. The persisted state
  does not stay \<open>upToDate\<close>: the last three effects of the run are the write of
  \<open>upToDate\<close>, the rejected launch and the write of \<open>errorDownloading\<close>.
\<close>

theorem Stage2_relaunch_rejected:
  assumes "5 \<le> length args"
    and "args ! 1 = UPDATE_NOW_LAUNCH_STAGE2 env"
    and "UPDATE_NOW_LAUNCH_STAGE2 env \<noteq> UPDATE_NOW_LAUNCH_STAGE1 env"
    and "args ! 4 = UPDATE_STAGE2_RESTART_PT env"
    and "installer_succeeds env (map towlower (args ! 2))"
    and "\<not> launch_accepted env (args ! 3 @ [0x5C] @ L ''PowerToys.exe'')
            (UPDATE_REPORT_SUCCESS env) [SEE_MASK_FLAG_NO_UI, SEE_MASK_NOASYNC]"
  shows "fst (InstallNewVersionStage2 env (args ! 2) (args ! 3) True (emit LoggerInit w)) = Some False
       \<and> persisted (snd (InstallNewVersionStage2 env (args ! 2) (args ! 3) True (emit LoggerInit w)))
           = \<lparr>state = upToDate, githubUpdateLastCheckedDate = Some (clock w),
              downloadedInstallerFilename = []\<rparr>
       \<and> fst (WinMain env (Some args) w) = Exit 1
       \<and> persisted (snd (WinMain env (Some args) w))
           = \<lparr>state = errorDownloading, githubUpdateLastCheckedDate = Some (clock w),
              downloadedInstallerFilename = []\<rparr>
       \<and> (\<exists>pre. new_events w (snd (WinMain env (Some args) w)) =
             pre @ [StateWrite \<lparr>state = upToDate, githubUpdateLastCheckedDate = Some (clock w),
                                downloadedInstallerFilename = []\<rparr>,
                    ProcessLaunch (args ! 3 @ [0x5C] @ L ''PowerToys.exe'')
                      (UPDATE_REPORT_SUCCESS env) [SEE_MASK_FLAG_NO_UI, SEE_MASK_NOASYNC],
                    StateWrite \<lparr>state = errorDownloading,
                                githubUpdateLastCheckedDate = Some (clock w),
                                downloadedInstallerFilename = []\<rparr>])"
proof -
  obtain r w1 where s2: "InstallNewVersionStage2 env (args ! 2) (args ! 3) True (emit LoggerInit w) = (r, w1)"
    by (cases "InstallNewVersionStage2 env (args ! 2) (args ! 3) True (emit LoggerInit w)")
  note ch = Stage2_installer_succeeded [OF assms(5) s2]
  from ch assms(6) have r: "r = Some False" by simp
  have wm: "WinMain env (Some args) w = (Exit 1, UpdateState_store stage2_failure_update w1)"
    using WinMain_stage2 [OF assms(1-3), of w] assms(4) s2 r by simp
  have "new_events w (snd (WinMain env (Some args) w)) =
          (LoggerInit # installer_trace env (map towlower (args ! 2)) @ [FileRemove (map towlower (args ! 2))])
          @ [StateWrite (up_to_date_at (clock w)), relaunch_event env (args ! 3),
             StateWrite (error_downloading_at (clock w))]"
    using ch by (simp add: wm new_events_def UpdateState_store_sel emit_sel stage2_failure_update_eq)
  then show ?thesis
    using ch r s2
    by (simp add: wm UpdateState_store_sel emit_sel stage2_failure_update_eq
        up_to_date_at_def error_downloading_at_def relaunch_event_def)
qed

theorem Stage2_relaunch_rejected_witness:
  "fst (WinMain (demo_env\<lparr>launch_accepted := (\<lambda>f a m. False)\<rparr>) (Some demo_args) demo_world) = Exit 1
   \<and> persisted (snd (WinMain (demo_env\<lparr>launch_accepted := (\<lambda>f a m. False)\<rparr>) (Some demo_args) demo_world))
       = \<lparr>state = errorDownloading, githubUpdateLastCheckedDate = Some 1000,
          downloadedInstallerFilename = []\<rparr>"
proof -
  let ?env = "demo_env\<lparr>launch_accepted := (\<lambda>f a m. False)\<rparr>"
  have "5 \<le> length demo_args" "demo_args ! 1 = UPDATE_NOW_LAUNCH_STAGE2 ?env"
    "UPDATE_NOW_LAUNCH_STAGE2 ?env \<noteq> UPDATE_NOW_LAUNCH_STAGE1 ?env"
    "demo_args ! 4 = UPDATE_STAGE2_RESTART_PT ?env"
    "installer_succeeds ?env (map towlower (demo_args ! 2))"
    "\<not> launch_accepted ?env (demo_args ! 3 @ [0x5C] @ L ''PowerToys.exe'')
            (UPDATE_REPORT_SUCCESS ?env) [SEE_MASK_FLAG_NO_UI, SEE_MASK_NOASYNC]"
    by (simp_all add: demo_defs installer_succeeds_def)
  from Stage2_relaunch_rejected [OF this, of demo_world] show ?thesis
    by (simp add: demo_world_def)
qed

text \<open>
  Claim C1 as stated fails: in this run the package installer returns success and
  the launch of the host is rejected, and the persisted status at exit is
  \<open>errorDownloading\<close>, not \<open>upToDate\<close>.
\<close>

theorem Stage2_relaunch_rejected_state_counterexample:
  "installer_succeeds (demo_env\<lparr>launch_accepted := (\<lambda>f a m. False)\<rparr>) (map towlower (demo_args ! 2))
   \<and> \<not> launch_accepted (demo_env\<lparr>launch_accepted := (\<lambda>f a m. False)\<rparr>)
         (demo_args ! 3 @ [0x5C] @ L ''PowerToys.exe'')
         (UPDATE_REPORT_SUCCESS demo_env) [SEE_MASK_FLAG_NO_UI, SEE_MASK_NOASYNC]
   \<and> fst (WinMain (demo_env\<lparr>launch_accepted := (\<lambda>f a m. False)\<rparr>) (Some demo_args) demo_world) = Exit 1
   \<and> state (persisted (snd (WinMain (demo_env\<lparr>launch_accepted := (\<lambda>f a m. False)\<rparr>)
                                 (Some demo_args) demo_world))) = errorDownloading
   \<and> state (persisted (snd (WinMain (demo_env\<lparr>launch_accepted := (\<lambda>f a m. False)\<rparr>)
                                 (Some demo_args) demo_world))) \<noteq> upToDate"
  by (simp add: prog_defs demo_defs)

section \<open>The entry point\<close>

text \<open>
  Claim C2, amended. When an action argument is present and is neither the stage-1
  nor the stage-2 token, the process exits with code 0; the persisted state is not
  touched and no process is launched: the only effect is the initialisation of the
  logger.
\<close>

theorem WinMain_unrecognized_action:
  assumes "2 \<le> length args"
    and "args ! 1 \<noteq> UPDATE_NOW_LAUNCH_STAGE1 env"
    and "args ! 1 \<noteq> UPDATE_NOW_LAUNCH_STAGE2 env"
  shows "WinMain env (Some args) w = (Exit 0, emit LoggerInit w)
       \<and> persisted (snd (WinMain env (Some args) w)) = persisted w
       \<and> new_events w (snd (WinMain env (Some args) w)) = [LoggerInit]"
  using assms by (simp add: WinMain_def Let_def emit_sel new_events_def)

theorem WinMain_unrecognized_action_witness:
  "WinMain demo_env (Some [L ''PowerToys.Update.exe'', L ''-update_later'']) demo_world
     = (Exit 0, emit LoggerInit demo_world)"
proof -
  have "2 \<le> length [L ''PowerToys.Update.exe'', L ''-update_later'']" by simp
  moreover have "[L ''PowerToys.Update.exe'', L ''-update_later''] ! 1 \<noteq> UPDATE_NOW_LAUNCH_STAGE1 demo_env"
    by (simp add: demo_defs)
  moreover have "[L ''PowerToys.Update.exe'', L ''-update_later''] ! 1 \<noteq> UPDATE_NOW_LAUNCH_STAGE2 demo_env"
    by (simp add: demo_defs)
  ultimately show ?thesis
    using WinMain_unrecognized_action [of "[L ''PowerToys.Update.exe'', L ''-update_later'']" demo_env demo_world]
    by blast
qed

text \<open>
  Claim C2 as stated fails: for the unrecognised action \<^verbatim>\<open>-update_later\<close> the
  exit code is 0, not 1.
\<close>

theorem WinMain_unrecognized_action_exit_code_counterexample:
  "[L ''PowerToys.Update.exe'', L ''-update_later''] ! 1 \<noteq> UPDATE_NOW_LAUNCH_STAGE1 demo_env
   \<and> [L ''PowerToys.Update.exe'', L ''-update_later''] ! 1 \<noteq> UPDATE_NOW_LAUNCH_STAGE2 demo_env
   \<and> fst (WinMain demo_env (Some [L ''PowerToys.Update.exe'', L ''-update_later'']) demo_world) = Exit 0
   \<and> fst (WinMain demo_env (Some [L ''PowerToys.Update.exe'', L ''-update_later'']) demo_world) \<noteq> Exit 1"
  by (simp add: WinMain_def Let_def demo_defs)

text \<open>
  Claim C9. A stage-2 invocation with no further argument, or with only two: the
  count check (\<^verbatim>\<open>nArgs < 2\<close>) lets it pass, the logger is initialised, and
  the arguments at positions 2 to 4 are read past the end of the array. The run does
  not end with an exit code.
\<close>

theorem WinMain_stage2_without_arguments:
  "WinMain demo_env (Some [L ''PowerToys.Update.exe'', L ''-update_now_stage_2'']) demo_world
     = (Undefined_behaviour, emit LoggerInit demo_world)
   \<and> WinMain demo_env (Some (take 4 demo_args)) demo_world
     = (Undefined_behaviour, emit LoggerInit demo_world)"
  by (simp add: WinMain_def Let_def demo_defs)

text \<open>
  Claim C10. In a stage-2 invocation the restart directive is the equality of the
  fourth argument with the restart token. With any other fourth argument, the
  do-not-restart token or not, \<^verbatim>\<open>WinMain\<close> runs Stage 2 with the directive
  false: the invocation is not rejected, exactly one installer call is made, no
  launch of the host is requested, and when the installer succeeds the process exits
  with code 0 and status \<open>upToDate\<close>.
\<close>

theorem WinMain_stage2_directive_by_equality:
  assumes "5 \<le> length args"
    and "args ! 1 = UPDATE_NOW_LAUNCH_STAGE2 env"
    and "UPDATE_NOW_LAUNCH_STAGE2 env \<noteq> UPDATE_NOW_LAUNCH_STAGE1 env"
    and "args ! 4 \<noteq> UPDATE_STAGE2_RESTART_PT env"
  shows "WinMain env (Some args) w =
           (case InstallNewVersionStage2 env (args ! 2) (args ! 3) False (emit LoggerInit w) of
              (None, w1) \<Rightarrow> (Never_returns, w1)
            | (Some ok, w1) \<Rightarrow>
                if ok then (Exit 0, w1) else (Exit 1, UpdateState_store stage2_failure_update w1))
       \<and> fst (WinMain env (Some args) w) \<noteq> Undefined_behaviour
       \<and> length (filter is_installer_call (new_events w (snd (WinMain env (Some args) w)))) = 1
       \<and> (\<forall>f a. ProcessLaunch f a [SEE_MASK_FLAG_NO_UI, SEE_MASK_NOASYNC]
                  \<notin> set (new_events w (snd (WinMain env (Some args) w))))
       \<and> (installer_succeeds env (map towlower (args ! 2)) \<longrightarrow>
            fst (WinMain env (Some args) w) = Exit 0
          \<and> state (persisted (snd (WinMain env (Some args) w))) = upToDate)"
proof -
  let ?s2 = "InstallNewVersionStage2 env (args ! 2) (args ! 3) False (emit LoggerInit w)"
  obtain r w1 where s2: "?s2 = (r, w1)" by (cases ?s2)
  have wm: "WinMain env (Some args) w =
           (case ?s2 of
              (None, w1) \<Rightarrow> (Never_returns, w1)
            | (Some ok, w1) \<Rightarrow>
                if ok then (Exit 0, w1) else (Exit 1, UpdateState_store stage2_failure_update w1))"
    using WinMain_stage2 [OF assms(1-3), of w] assms(4) by simp
  have ev1: "events w1 = events w @ LoggerInit # installer_trace env (map towlower (args ! 2))
       @ (if installer_succeeds env (map towlower (args ! 2))
          then [FileRemove (map towlower (args ! 2)), StateWrite (up_to_date_at (clock w))]
          else [])"
    using Stage2_events [of env "args ! 2" "args ! 3" False "emit LoggerInit w"]
    by (simp add: s2 emit_sel)
  have ev: "\<exists>tl. new_events w (snd (WinMain env (Some args) w)) =
      LoggerInit # installer_trace env (map towlower (args ! 2))
       @ (if installer_succeeds env (map towlower (args ! 2))
          then [FileRemove (map towlower (args ! 2)), StateWrite (up_to_date_at (clock w))]
          else []) @ tl \<and> (tl = [] \<or> (\<exists>s. tl = [StateWrite s]))"
    using ev1 by (cases r) (auto simp: wm s2 new_events_def UpdateState_store_sel)
  have succ: "installer_succeeds env (map towlower (args ! 2)) \<Longrightarrow>
      r = Some True \<and> persisted w1 = up_to_date_at (clock w)"
    using Stage2_installer_succeeded [OF _ s2] by (simp add: emit_sel)
  have no_relaunch: "\<forall>f a. ProcessLaunch f a [SEE_MASK_FLAG_NO_UI, SEE_MASK_NOASYNC]
                  \<notin> set (installer_trace env q)" for q
    by (simp add: installer_trace_def bootstrapper_mask_def)
  show ?thesis
  proof (intro conjI impI)
    show "WinMain env (Some args) w =
           (case ?s2 of
              (None, w1) \<Rightarrow> (Never_returns, w1)
            | (Some ok, w1) \<Rightarrow>
                if ok then (Exit 0, w1) else (Exit 1, UpdateState_store stage2_failure_update w1))"
      by (rule wm)
    show "fst (WinMain env (Some args) w) \<noteq> Undefined_behaviour"
      by (cases r) (auto simp: wm s2)
    show "length (filter is_installer_call (new_events w (snd (WinMain env (Some args) w)))) = 1"
      using ev by (auto simp: ev_defs installer_trace_filters)
    show "\<forall>f a. ProcessLaunch f a [SEE_MASK_FLAG_NO_UI, SEE_MASK_NOASYNC]
                  \<notin> set (new_events w (snd (WinMain env (Some args) w)))"
      using ev no_relaunch [of "map towlower (args ! 2)"] by auto
  next
    assume ok: "installer_succeeds env (map towlower (args ! 2))"
    from succ [OF ok] show "fst (WinMain env (Some args) w) = Exit 0"
      by (simp add: wm s2)
    from succ [OF ok] show "state (persisted (snd (WinMain env (Some args) w))) = upToDate"
      by (simp add: wm s2 up_to_date_at_def)
  qed
qed

theorem WinMain_stage2_directive_by_equality_witness:
  "demo_args [4 := L ''maybe''] ! 4 \<noteq> UPDATE_STAGE2_RESTART_PT demo_env
   \<and> demo_args [4 := L ''maybe''] ! 4 \<noteq> UPDATE_STAGE2_DONT_START_PT demo_env
   \<and> installer_succeeds demo_env (map towlower (demo_args [4 := L ''maybe''] ! 2))
   \<and> fst (WinMain demo_env (Some (demo_args [4 := L ''maybe''])) demo_world) = Exit 0
   \<and> state (persisted (snd (WinMain demo_env (Some (demo_args [4 := L ''maybe''])) demo_world))) = upToDate
   \<and> (\<forall>f a. ProcessLaunch f a [SEE_MASK_FLAG_NO_UI, SEE_MASK_NOASYNC]
              \<notin> set (new_events demo_world
                        (snd (WinMain demo_env (Some (demo_args [4 := L ''maybe''])) demo_world))))"
proof -
  let ?args = "demo_args [4 := L ''maybe'']"
  have h: "5 \<le> length ?args" "?args ! 1 = UPDATE_NOW_LAUNCH_STAGE2 demo_env"
    "UPDATE_NOW_LAUNCH_STAGE2 demo_env \<noteq> UPDATE_NOW_LAUNCH_STAGE1 demo_env"
    "?args ! 4 \<noteq> UPDATE_STAGE2_RESTART_PT demo_env"
    by (simp_all add: demo_defs)
  have d: "?args ! 4 \<noteq> UPDATE_STAGE2_DONT_START_PT demo_env"
    by (simp add: demo_defs)
  have ok: "installer_succeeds demo_env (map towlower (?args ! 2))"
    by (simp add: installer_succeeds_def demo_defs)
  from WinMain_stage2_directive_by_equality [OF h, of demo_world] h(4) d ok
  show ?thesis by blast
qed

section \<open>Persisted-state writes\<close>

text \<open>
  Claim C6. Each of the three transforms the program stores (Stage-1 failure,
  Stage-2 failure, Stage-2 success) yields a status other than \<open>readyToInstall\<close>
  and an empty filename, whatever the record was before, so the result satisfies the
  invariant that the filename is populated exactly in status \<open>readyToInstall\<close>.
  Moreover every record written during any run of \<^verbatim>\<open>WinMain\<close> has this form.
\<close>

theorem state_writes_keep_filename_invariant:
  "state (stage1_failure_update w0 s0) \<noteq> readyToInstall
   \<and> downloadedInstallerFilename (stage1_failure_update w0 s0) = []
   \<and> state (stage2_failure_update w0 s0) \<noteq> readyToInstall
   \<and> downloadedInstallerFilename (stage2_failure_update w0 s0) = []
   \<and> state (stage2_success_update w0 s0) \<noteq> readyToInstall
   \<and> downloadedInstallerFilename (stage2_success_update w0 s0) = []
   \<and> filename_invariant (stage1_failure_update w0 s0)
   \<and> filename_invariant (stage2_failure_update w0 s0)
   \<and> filename_invariant (stage2_success_update w0 s0)
   \<and> (\<forall>s. StateWrite s \<in> set (new_events w (snd (WinMain env argv w))) \<longrightarrow>
          state s \<noteq> readyToInstall \<and> downloadedInstallerFilename s = []
          \<and> filename_invariant s)"
proof -
  have transforms:
    "state (stage1_failure_update w0 s0) \<noteq> readyToInstall
     \<and> downloadedInstallerFilename (stage1_failure_update w0 s0) = []
     \<and> state (stage2_failure_update w0 s0) \<noteq> readyToInstall
     \<and> downloadedInstallerFilename (stage2_failure_update w0 s0) = []
     \<and> state (stage2_success_update w0 s0) \<noteq> readyToInstall
     \<and> downloadedInstallerFilename (stage2_success_update w0 s0) = []
     \<and> filename_invariant (stage1_failure_update w0 s0)
     \<and> filename_invariant (stage2_failure_update w0 s0)
     \<and> filename_invariant (stage2_success_update w0 s0)"
    by (simp add: stage1_failure_update_def stage2_failure_update_def stage2_success_update_def
        filename_invariant_def UpdateState_default_def)
  have run: "state s \<noteq> readyToInstall \<and> downloadedInstallerFilename s = []
          \<and> filename_invariant s"
    if "StateWrite s \<in> set (new_events w (snd (WinMain env argv w)))" for s
    using WinMain_state_writes [OF that]
    by (auto simp: filename_invariant_def up_to_date_at_def error_downloading_at_def)
  from transforms run show ?thesis by blast
qed

theorem state_writes_keep_filename_invariant_witness:
  "StateWrite \<lparr>state = errorDownloading, githubUpdateLastCheckedDate = Some 1000,
               downloadedInstallerFilename = []\<rparr>
     \<in> set (new_events demo_world
              (snd (WinMain (demo_env\<lparr>msi_return_code := (\<lambda>p. 1603)\<rparr>) (Some demo_args) demo_world)))
   \<and> filename_invariant \<lparr>state = errorDownloading, githubUpdateLastCheckedDate = Some 1000,
               downloadedInstallerFilename = []\<rparr>"
proof -
  have "StateWrite \<lparr>state = errorDownloading, githubUpdateLastCheckedDate = Some 1000,
               downloadedInstallerFilename = []\<rparr>
     \<in> set (new_events demo_world
              (snd (WinMain (demo_env\<lparr>msi_return_code := (\<lambda>p. 1603)\<rparr>) (Some demo_args) demo_world)))"
    by (simp add: prog_defs demo_defs)
  with state_writes_keep_filename_invariant
    [of demo_world UpdateState_default demo_world "demo_env\<lparr>msi_return_code := (\<lambda>p. 1603)\<rparr>" "Some demo_args"]
  show ?thesis by blast
qed

end
